theory Spec2Isabelle
  imports Main
begin

section \<open>Errors of the MongoDB Atlas client (internal/clients/mongodb)\<close>

text \<open>
  The Go type \<^verbatim>\<open>Error\<close> of the client: the body of an API error response.
\<close>

record api_error =
  Code :: int
  Detail :: string
  Reason :: string

text \<open>
  An argument of a format string; \<^verbatim>\<open>fmt.Sprintf\<close> is kept unevaluated.
\<close>

datatype fmt_arg = ArgInt int | ArgStr string

text \<open>
  Go \<^verbatim>\<open>error\<close> values, by their dynamic type: \<open>New\<close> is \<^verbatim>\<open>errors.New\<close> (also an opaque
  error of a library), \<open>Errorf\<close> an error whose text is a formatted string, \<open>Wrap e msg\<close> is
  \<^verbatim>\<open>errors.Wrap(e, msg)\<close>, \<open>APIError\<close> is an \<^verbatim>\<open>Error\<close> value, and the last three are
  the pointer types \<^verbatim>\<open>*NotFoundError\<close>, \<^verbatim>\<open>*RetryableError\<close> and \<^verbatim>\<open>*ConflictError\<close>.
  A nil error is \<open>None\<close> of \<open>go_error option\<close>.
\<close>

datatype go_error =
    New string
  | Errorf string "fmt_arg list"
  | Wrap go_error string
  | APIError api_error
  | NotFoundError api_error
  | RetryableError go_error string
  | ConflictError go_error string

text \<open>
  The classification functions are type assertions on the error itself: a wrapped
  error is not looked into, and nil has none of the three types.
\<close>

fun IsNotFoundError :: "go_error option \<Rightarrow> bool" where
  "IsNotFoundError (Some (NotFoundError _)) = True"
| "IsNotFoundError _ = False"

fun IsRetryableError :: "go_error option \<Rightarrow> bool" where
  "IsRetryableError (Some (RetryableError _ _)) = True"
| "IsRetryableError _ = False"

fun IsConflictError :: "go_error option \<Rightarrow> bool" where
  "IsConflictError (Some (ConflictError _ _)) = True"
| "IsConflictError _ = False"

section \<open>The request helper of the client\<close>

text \<open>
  What one call of \<^verbatim>\<open>makeRequest\<close> meets, in the order the function meets it: the payload
  does not marshal, the request cannot be built, the transport fails before any response,
  or a response arrives. A response carries its status code, its status line, the result of
  unmarshalling its body into an \<^verbatim>\<open>Error\<close> (\<open>None\<close> when \<^verbatim>\<open>json.Unmarshal\<close> fails) and the
  error of decoding its body into the caller's result (\<open>None\<close> when it decodes).
\<close>

datatype request_outcome =
    MarshalFailed go_error
  | NewRequestFailed go_error
  | DoFailed go_error
  | Responded int string "api_error option" "go_error option"

text \<open>
  \<^verbatim>\<open>makeRequest\<close>; \<open>wantResult\<close> is \<^verbatim>\<open>result != nil\<close>.
\<close>

fun makeRequest :: "request_outcome \<Rightarrow> bool \<Rightarrow> go_error option" where
  "makeRequest (MarshalFailed e) wantResult = Some (Wrap e ''marshal payload'')"
| "makeRequest (NewRequestFailed e) wantResult = Some (Wrap e ''create HTTP request'')"
| "makeRequest (DoFailed e) wantResult =
     Some (RetryableError e ''HTTP request failed (network error)'')"
| "makeRequest (Responded StatusCode Status parsed decodeErr) wantResult =
     (if StatusCode \<ge> 400 then
        (case parsed of
           None \<Rightarrow>
             (let errorMsg = Errorf ''HTTP %d: %s'' [ArgInt StatusCode, ArgStr Status] in
              if StatusCode \<ge> 500 then Some (RetryableError errorMsg ''server error'')
              else Some errorMsg)
         | Some apiErr \<Rightarrow>
             if StatusCode = 404 then Some (NotFoundError apiErr)
             else if StatusCode = 409 then
               Some (ConflictError (APIError apiErr) ''resource in conflict state'')
             else if StatusCode = 429 then
               Some (RetryableError (APIError apiErr) ''rate limited'')
             else if StatusCode \<ge> 500 then
               Some (RetryableError (APIError apiErr) ''server error'')
             else Some (APIError apiErr))
      else if wantResult \<and> StatusCode \<noteq> 204 then
        (case decodeErr of
           Some e \<Rightarrow> Some (Wrap e ''decode response'')
         | None \<Rightarrow> None)
      else None)"



section \<open>The Organization managed resource (apis/organization/v1alpha1)\<close>

record AWSSecretsManagerReference =
  Region :: string
  SecretName :: "string option"
  KMSKeyID :: "string option"

record OrganizationAPIKey =
  Description :: string
  Roles :: "string list"

record OrganizationParameters =
  APIKey :: OrganizationAPIKey
  OwnerID :: string
  AWSSecretsConfig :: AWSSecretsManagerReference

record OrganizationObservation =
  OrgID :: string
  OrgName :: string
  AtProviderSecretName :: string
  SecretARN :: string
  AtProviderKMSKeyID :: string

text \<open>
  The conditions the controller sets, and the condition type each belongs to
  (\<^verbatim>\<open>Ready\<close> or \<^verbatim>\<open>Synced\<close>).
\<close>

datatype condition =
    Available
  | Deleting
  | ReconcileSuccess
  | ReconcileError go_error

datatype condition_type = TypeReady | TypeSynced

fun condition_type_of :: "condition \<Rightarrow> condition_type" where
  "condition_type_of Available = TypeReady"
| "condition_type_of Deleting = TypeReady"
| "condition_type_of ReconcileSuccess = TypeSynced"
| "condition_type_of (ReconcileError _) = TypeSynced"

text \<open>
  The object: of its metadata the name, the annotations, the finalizers and the deletion
  timestamp; its \<^verbatim>\<open>Spec.ForProvider\<close>; of its status \<^verbatim>\<open>AtProvider\<close> and the conditions.
\<close>

record Organization =
  Name :: string
  Annotations :: "string \<rightharpoonup> string"
  Finalizers :: "string list"
  DeletionTimestamp :: "nat option"
  ForProvider :: OrganizationParameters
  AtProvider :: OrganizationObservation
  Conditions :: "condition list"

subsection \<open>Helpers of the runtime library\<close>

text \<open>
  The external name is the annotation \<^verbatim>\<open>crossplane.io/external-name\<close>, the empty string
  when the annotation is absent. \<^verbatim>\<open>FinalizerExists\<close> looks the finalizer up in the list of
  finalizers, and \<^verbatim>\<open>AddFinalizer\<close> appends a finalizer that is not yet there.
\<close>

definition AnnotationKeyExternalName :: string where
  "AnnotationKeyExternalName = ''crossplane.io/external-name''"

definition GetExternalName :: "Organization \<Rightarrow> string" where
  "GetExternalName cr =
     (case Annotations cr AnnotationKeyExternalName of None \<Rightarrow> '''' | Some v \<Rightarrow> v)"

definition SetExternalName :: "Organization \<Rightarrow> string \<Rightarrow> Organization" where
  "SetExternalName cr name =
     cr\<lparr>Annotations := (Annotations cr)(AnnotationKeyExternalName \<mapsto> name)\<rparr>"

definition FinalizerExists :: "Organization \<Rightarrow> string \<Rightarrow> bool" where
  "FinalizerExists cr finalizer = (finalizer \<in> set (Finalizers cr))"

definition AddFinalizer :: "Organization \<Rightarrow> string \<Rightarrow> Organization" where
  "AddFinalizer cr finalizer =
     (if finalizer \<in> set (Finalizers cr) then cr
      else cr\<lparr>Finalizers := Finalizers cr @ [finalizer]\<rparr>)"

text \<open>
  \<^verbatim>\<open>RemoveFinalizer\<close> ranges over the slice of finalizers as it was on entry and, at every
  index that holds the finalizer, deletes that index from the current slice in place:
  \<^verbatim>\<open>for i, e := range f { if e == finalizer { f = append(f[:i], f[i+1:]...) } }\<close>.
  The elements move inside the one backing array, which the loop goes on reading. In
  \<open>RemoveFinalizer_range finalizer k i a m\<close> the list \<open>a\<close> is the backing array, \<open>m\<close> the
  length of the current slice, \<open>i\<close> the index (always below the length of \<open>a\<close>) and \<open>k\<close>
  the number of indices left. The expression \<^verbatim>\<open>f[i+1:]\<close> panics (slice bounds out of
  range) when \<open>i + 1\<close> exceeds \<open>m\<close>; the object then holds the array as the loop left it.
  The result is whether the loop panicked, and the finalizers of the object afterwards.
  A finalizer that occurs once is taken out; one that occurs more often makes the loop
  panic, or stays in the list.
\<close>

fun RemoveFinalizer_range ::
  "string \<Rightarrow> nat \<Rightarrow> nat \<Rightarrow> string list \<Rightarrow> nat \<Rightarrow> bool \<times> string list" where
  "RemoveFinalizer_range finalizer 0 i a m = (False, take m a)"
| "RemoveFinalizer_range finalizer (Suc k) i a m =
     (if a ! i = finalizer then
        (if m < i + 1 then (True, a)
         else RemoveFinalizer_range finalizer k (i + 1)
                (take i a @ drop (i + 1) (take m a) @ drop (m - 1) a) (m - 1))
      else RemoveFinalizer_range finalizer k (i + 1) a m)"

definition RemoveFinalizer :: "Organization \<Rightarrow> string \<Rightarrow> bool \<times> Organization" where
  "RemoveFinalizer cr finalizer =
     (let f = Finalizers cr;
          (panicked, f') = RemoveFinalizer_range finalizer (length f) 0 f (length f)
      in (panicked, cr\<lparr>Finalizers := f'\<rparr>))"

text \<open>
  \<^verbatim>\<open>SetConditions\<close> replaces the condition of the same type, or appends the new one.
\<close>

definition SetConditions :: "Organization \<Rightarrow> condition \<Rightarrow> Organization" where
  "SetConditions cr c =
     cr\<lparr>Conditions :=
       (if list_ex (\<lambda>d. condition_type_of d = condition_type_of c) (Conditions cr)
        then map (\<lambda>d. if condition_type_of d = condition_type_of c then c else d)
               (Conditions cr)
        else Conditions cr @ [c])\<rparr>"

section \<open>The collaborators of the controller\<close>

text \<open>
  The \<^verbatim>\<open>Service\<close> interface of the Atlas client and the methods of the AWS client, as
  the controller sees them: each method is its answer at the arguments it is called
  with. A method that returns a value and an error is a sum (\<open>Inl\<close> the error).
\<close>

record svcOrganization =
  svcID :: string
  svcName :: string
  svcOrgOwnerId :: string
  svcIsDeleted :: bool

record svcAPIKey =
  svcDescription :: string
  svcRoles :: "string list"

record CreateOrganizationInput =
  inputName :: string
  inputOwnerID :: string
  inputAPIKey :: svcAPIKey

record APIKeyPair =
  PublicKey :: string
  PrivateKey :: string

record MongoDBAPICredentials =
  credsPublicKey :: string
  credsPrivateKey :: string

record DescribeSecretOutput =
  ARN :: "string option"
  descDescription :: "string option"

record Service =
  CreateOrganization :: "CreateOrganizationInput \<Rightarrow> go_error + (svcOrganization \<times> APIKeyPair)"
  GetOrganization :: "string \<Rightarrow> go_error + svcOrganization"
  DeleteOrganization :: "string \<Rightarrow> go_error option"

record AWSClient =
  PutSecret :: "string \<Rightarrow> MongoDBAPICredentials \<Rightarrow> string \<Rightarrow> string option \<Rightarrow> go_error + string"
  GetSecret :: "string \<Rightarrow> go_error + MongoDBAPICredentials"
  DescribeSecret :: "string \<Rightarrow> go_error + DescribeSecretOutput"
  DeleteSecret :: "string \<Rightarrow> bool \<Rightarrow> go_error option"

record external =
  client :: Service
  awsClient :: AWSClient

text \<open>The remote calls an operation issues, in order, and the lines it logs.\<close>

datatype remote_call =
    CallCreateOrganization CreateOrganizationInput
  | CallGetOrganization string
  | CallDeleteOrganization string
  | CallPutSecret string MongoDBAPICredentials string "string option"
  | CallGetSecret string
  | CallDescribeSecret string
  | CallDeleteSecret string bool

datatype log_line =
    LogMarkedForDeletion
  | LogDescribeFailed
  | LogDeleteEmptyExternalName
  | LogDeleteInvoked
  | LogFinalizerMissing
  | LogCallingDeleteOrganization
  | LogAlreadyDeleted
  | LogSecretCleanup
  | LogDeleteSecretFailed
  | LogDeleteOrganizationError
  | LogDeletedSuccessfully

text \<open>
  What an operation leaves behind: the value and the error it returns, the object it was
  given (a pointer in Go, mutated in place), the remote calls and the log.
\<close>

record 'r outcome =
  result :: 'r
  err :: "go_error option"
  obj :: Organization
  calls :: "remote_call list"
  logs :: "log_line list"

section \<open>The controller (internal/controller/organization)\<close>

definition secretPrefix :: string where
  "secretPrefix = ''product/mongodb/''"

definition errDeleteExternal :: string where
  "errDeleteExternal = ''cannot delete external organization''"

definition FinalizerOrganizationCleanup :: string where
  "FinalizerOrganizationCleanup = ''organization.platform.allianz.io/cleanup''"

definition finalSecretName :: "Organization \<Rightarrow> string" where
  "finalSecretName cr =
     (case SecretName (AWSSecretsConfig (ForProvider cr)) of
        Some n \<Rightarrow> if n \<noteq> '''' then secretPrefix @ n else secretPrefix @ Name cr
      | None \<Rightarrow> secretPrefix @ Name cr)"

text \<open>
  How a call of \<^verbatim>\<open>Delete\<close> ends: it returns (its error is \<open>err\<close>), or it panics inside
  \<^verbatim>\<open>RemoveFinalizer\<close>, after both remote deletes and before the condition is set.
\<close>

datatype completion = Returned | Panicked

definition Delete :: "external \<Rightarrow> Organization \<Rightarrow> completion outcome" where
  "Delete c cr =
     (let orgID = GetExternalName cr in
      if orgID = '''' then
        \<lparr>result = Returned, err = None, obj = cr, calls = [],
         logs = [LogDeleteEmptyExternalName]\<rparr>
      else if \<not> FinalizerExists cr FinalizerOrganizationCleanup then
        \<lparr>result = Returned, err = None,
         obj = AddFinalizer cr FinalizerOrganizationCleanup,
         calls = [], logs = [LogDeleteInvoked, LogFinalizerMissing]\<rparr>
      else
        (let e = DeleteOrganization (client c) orgID;
             l = [LogDeleteInvoked, LogCallingDeleteOrganization]
         in if IsNotFoundError e then
              (let secretName = finalSecretName cr;
                   delErr = DeleteSecret (awsClient c) secretName True;
                   l' = l @ [LogAlreadyDeleted, LogSecretCleanup] @
                        (if delErr \<noteq> None then [LogDeleteSecretFailed] else []);
                   issued = [CallDeleteOrganization orgID, CallDeleteSecret secretName True];
                   (panicked, cr') = RemoveFinalizer cr FinalizerOrganizationCleanup
               in if panicked then
                    \<lparr>result = Panicked, err = None, obj = cr', calls = issued, logs = l'\<rparr>
                  else
                    \<lparr>result = Returned, err = None,
                     obj = SetConditions cr' ReconcileSuccess, calls = issued, logs = l'\<rparr>)
            else
              (case e of
                 Some er \<Rightarrow>
                   \<lparr>result = Returned, err = Some (Wrap er errDeleteExternal),
                    obj = SetConditions cr (ReconcileError er),
                    calls = [CallDeleteOrganization orgID],
                    logs = l @ [LogDeleteOrganizationError]\<rparr>
               | None \<Rightarrow>
                   (let secretName = finalSecretName cr;
                        delErr = DeleteSecret (awsClient c) secretName True;
                        l' = l @ [LogDeletedSuccessfully, LogSecretCleanup] @
                             (if delErr \<noteq> None then [LogDeleteSecretFailed] else []);
                        issued = [CallDeleteOrganization orgID,
                                  CallDeleteSecret secretName True];
                        (panicked, cr') = RemoveFinalizer cr FinalizerOrganizationCleanup
                    in if panicked then
                         \<lparr>result = Panicked, err = None, obj = cr', calls = issued,
                          logs = l'\<rparr>
                       else
                         \<lparr>result = Returned, err = None,
                          obj = SetConditions cr' ReconcileSuccess, calls = issued,
                          logs = l'\<rparr>))))"

definition createOrganizationInput :: "Organization \<Rightarrow> CreateOrganizationInput" where
  "createOrganizationInput cr =
     \<lparr>inputName = Name cr,
      inputOwnerID = OwnerID (ForProvider cr),
      inputAPIKey =
        \<lparr>svcDescription = Description (APIKey (ForProvider cr)),
         svcRoles = Roles (APIKey (ForProvider cr))\<rparr>\<rparr>"

record ExternalObservation =
  ResourceExists :: bool
  ResourceUpToDate :: bool

record ExternalCreation =
  ConnectionDetails :: "string \<rightharpoonup> string"

record ExternalUpdate =
  UpdateConnectionDetails :: "string \<rightharpoonup> string"

definition Observe :: "external \<Rightarrow> Organization \<Rightarrow> ExternalObservation outcome" where
  "Observe c cr =
     (let orgID = GetExternalName cr in
      if orgID = '''' then
        \<lparr>result = \<lparr>ResourceExists = False, ResourceUpToDate = False\<rparr>,
         err = None, obj = cr, calls = [], logs = []\<rparr>
      else
        (let cr1 = cr\<lparr>AtProvider := (AtProvider cr)\<lparr>OrgID := orgID\<rparr>\<rparr> in
         if DeletionTimestamp cr1 \<noteq> None then
           \<lparr>result = \<lparr>ResourceExists = True, ResourceUpToDate = False\<rparr>,
            err = None, obj = SetConditions cr1 Deleting, calls = [],
            logs = [LogMarkedForDeletion]\<rparr>
         else
           (let secretName = finalSecretName cr1 in
            case DescribeSecret (awsClient c) secretName of
              Inl e \<Rightarrow>
                \<lparr>result = \<lparr>ResourceExists = True, ResourceUpToDate = True\<rparr>,
                 err = None, obj = SetConditions cr1 Available,
                 calls = [CallDescribeSecret secretName], logs = [LogDescribeFailed]\<rparr>
            | Inr desc \<Rightarrow>
                (let cr2 =
                   (case ARN desc of
                      Some a \<Rightarrow>
                        cr1\<lparr>AtProvider :=
                          (AtProvider cr1)\<lparr>AtProviderSecretName := secretName, SecretARN := a\<rparr>\<rparr>
                    | None \<Rightarrow> cr1)
                 in \<lparr>result = \<lparr>ResourceExists = True, ResourceUpToDate = True\<rparr>,
                     err = None, obj = SetConditions cr2 Available,
                     calls = [CallDescribeSecret secretName], logs = []\<rparr>))))"

text \<open>
  \<^verbatim>\<open>CreateOrganization\<close> returns an organization and a key pair, or an error.
\<close>

definition Create :: "external \<Rightarrow> Organization \<Rightarrow> ExternalCreation outcome" where
  "Create c cr =
     (let input = createOrganizationInput cr in
      case CreateOrganization (client c) input of
        Inl e \<Rightarrow>
          \<lparr>result = \<lparr>ConnectionDetails = Map.empty\<rparr>, err = Some e, obj = cr,
           calls = [CallCreateOrganization input], logs = []\<rparr>
      | Inr (org, apiKey) \<Rightarrow>
          (let cr1 = SetExternalName cr (svcID org);
               cr2 = cr1\<lparr>AtProvider :=
                       (AtProvider cr1)\<lparr>OrgID := svcID org, OrgName := svcName org\<rparr>\<rparr>;
               secretName = finalSecretName cr2;
               creds = \<lparr>credsPublicKey = PublicKey apiKey,
                        credsPrivateKey = PrivateKey apiKey\<rparr>;
               kms = KMSKeyID (AWSSecretsConfig (ForProvider cr2));
               issued = [CallCreateOrganization input,
                         CallPutSecret secretName creds (svcID org) kms]
           in case PutSecret (awsClient c) secretName creds (svcID org) kms of
                Inl e \<Rightarrow>
                  \<lparr>result = \<lparr>ConnectionDetails = Map.empty\<rparr>,
                   err = Some (Wrap e ''failed to put secret''), obj = cr2,
                   calls = issued, logs = []\<rparr>
              | Inr arn \<Rightarrow>
                  \<lparr>result =
                     \<lparr>ConnectionDetails =
                        [''publicKey'' \<mapsto> PublicKey apiKey,
                         ''privateKey'' \<mapsto> PrivateKey apiKey,
                         ''secretARN'' \<mapsto> arn]\<rparr>,
                   err = None,
                   obj = cr2\<lparr>AtProvider :=
                           (AtProvider cr2)\<lparr>AtProviderSecretName := secretName,
                                             SecretARN := arn\<rparr>\<rparr>,
                   calls = issued, logs = []\<rparr>))"

definition Update :: "external \<Rightarrow> Organization \<Rightarrow> ExternalUpdate outcome" where
  "Update c cr =
     \<lparr>result = \<lparr>UpdateConnectionDetails = Map.empty\<rparr>, err = None, obj = cr,
      calls = [], logs = []\<rparr>"

section \<open>Example resources and collaborators\<close>

text \<open>
  The organization \<open>acme\<close> as declared, after its creation as \<open>org-42\<close>, and with the
  cleanup finalizer recorded; \<open>acmeKeyed\<close> declares an explicit secret name.
\<close>

definition acme :: Organization where
  "acme =
     \<lparr>Name = ''acme'', Annotations = Map.empty, Finalizers = [], DeletionTimestamp = None,
      ForProvider =
        \<lparr>APIKey = \<lparr>Description = ''x'', Roles = [''OWNER'']\<rparr>, OwnerID = ''u-1'',
         AWSSecretsConfig = \<lparr>Region = ''us-east-1'', SecretName = None, KMSKeyID = None\<rparr>\<rparr>,
      AtProvider =
        \<lparr>OrgID = '''', OrgName = '''', AtProviderSecretName = '''', SecretARN = '''',
         AtProviderKMSKeyID = ''''\<rparr>,
      Conditions = []\<rparr>"

definition acme42 :: Organization where
  "acme42 = SetExternalName acme ''org-42''"


definition acmeKeyed :: Organization where
  "acmeKeyed =
     acme42\<lparr>ForProvider :=
       (ForProvider acme42)\<lparr>AWSSecretsConfig :=
         \<lparr>Region = ''us-east-1'', SecretName = Some ''team-a'', KMSKeyID = None\<rparr>\<rparr>\<rparr>"

text \<open>
  Two more created organizations: \<open>globex42\<close> has the identifier of \<open>acme42\<close> and
  another name, \<open>acme43\<close> the name of \<open>acme42\<close> and another identifier.
\<close>

definition globex42 :: Organization where
  "globex42 = acme42\<lparr>Name := ''globex''\<rparr>"

definition acme43 :: Organization where
  "acme43 = SetExternalName acme ''org-43''"

definition org42 :: svcOrganization where
  "org42 = \<lparr>svcID = ''org-42'', svcName = ''acme'', svcOrgOwnerId = ''u-1'',
            svcIsDeleted = False\<rparr>"

definition keys42 :: APIKeyPair where
  "keys42 = \<lparr>PublicKey = ''pub'', PrivateKey = ''priv''\<rparr>"

definition notFoundBody :: api_error where
  "notFoundBody = \<lparr>Code = 404, Detail = ''no such organization'', Reason = ''Not Found''\<rparr>"

text \<open>
  Collaborators that give the same answer to every call of a method:
  \<open>answering cre get del put desc dsec\<close>.
\<close>

definition answering ::
  "go_error + (svcOrganization \<times> APIKeyPair) \<Rightarrow> go_error + svcOrganization \<Rightarrow>
   go_error option \<Rightarrow> go_error + string \<Rightarrow> go_error + DescribeSecretOutput \<Rightarrow>
   go_error option \<Rightarrow> external" where
  "answering cre get del put desc dsec =
     \<lparr>client =
        \<lparr>CreateOrganization = (\<lambda>_. cre), GetOrganization = (\<lambda>_. get),
         DeleteOrganization = (\<lambda>_. del)\<rparr>,
      awsClient =
        \<lparr>PutSecret = (\<lambda>_ _ _ _. put),
         GetSecret = (\<lambda>_. Inr \<lparr>credsPublicKey = ''pub'', credsPrivateKey = ''priv''\<rparr>),
         DescribeSecret = (\<lambda>_. desc), DeleteSecret = (\<lambda>_ _. dsec)\<rparr>\<rparr>"

definition storedSecret :: DescribeSecretOutput where
  "storedSecret =
     \<lparr>ARN = Some ''arn:aws:secretsmanager:us-east-1:1:secret:product/mongodb/acme'',
      descDescription = Some ''MongoDB API credentials for organization org-42''\<rparr>"

text \<open>Both backends healthy, the organization and its secret present.\<close>

definition healthy :: external where
  "healthy = answering (Inr (org42, keys42)) (Inr org42) None
               (Inr ''arn:aws:secretsmanager:us-east-1:1:secret:product/mongodb/acme'')
               (Inr storedSecret) None"

text \<open>The credential store refuses every call; the Organization API is healthy.\<close>

definition storeDown :: external where
  "storeDown = answering (Inr (org42, keys42)) (Inr org42) None
                 (Inl (New ''AccessDeniedException''))
                 (Inl (New ''AccessDeniedException''))
                 (Some (New ''AccessDeniedException''))"

text \<open>
  The organization is gone remotely and its secret is not in the store: the Organization
  API answers NotFound, and so does the store.
\<close>

definition orgGone :: external where
  "orgGone = answering (Inr (org42, keys42)) (Inl (NotFoundError notFoundBody))
               (Some (NotFoundError notFoundBody))
               (Inl (New ''ResourceNotFoundException''))
               (Inl (New ''ResourceNotFoundException''))
               (Some (New ''ResourceNotFoundException''))"

text \<open>
  The organization exists remotely and its secret is not in the store: the Organization
  API is healthy, and the store finds no secret of that name.
\<close>

definition secretMissing :: external where
  "secretMissing = answering (Inr (org42, keys42)) (Inr org42) None
                     (Inr ''arn:aws:secretsmanager:us-east-1:1:secret:product/mongodb/acme'')
                     (Inl (New ''ResourceNotFoundException''))
                     (Some (New ''ResourceNotFoundException''))"

text \<open>The created organization \<open>acme42\<close>, marked for deletion.\<close>

definition acme42Deleting :: Organization where
  "acme42Deleting = acme42\<lparr>DeletionTimestamp := Some 1\<rparr>"


section \<open>Facts shared by the proofs\<close>

lemma finalSecretName_cong:
  assumes "Name cr' = Name cr"
    and "SecretName (AWSSecretsConfig (ForProvider cr')) =
         SecretName (AWSSecretsConfig (ForProvider cr))"
  shows "finalSecretName cr' = finalSecretName cr"
  using assms by (simp add: finalSecretName_def split: option.splits)



text \<open>
  On a repeated finalizer the loop panics, or leaves one occurrence behind.
\<close>

lemma RemoveFinalizer_range_repeated:
  "RemoveFinalizer_range f (length [f, f]) 0 [f, f] (length [f, f]) = (True, [f, f])"
  "g \<noteq> f \<Longrightarrow>
   RemoveFinalizer_range f (length [f, f, g]) 0 [f, f, g] (length [f, f, g]) =
     (False, [f, g])"
  by simp_all


lemma FinalizerExists_SetConditions [simp]:
  "FinalizerExists (SetConditions cr c) f = FinalizerExists cr f"
  by (simp add: FinalizerExists_def SetConditions_def)


section \<open>Delete with an empty external name\<close>

text \<open>
  C10. For every Organization whose external identifier is empty, Delete returns success
  at once: the object is left as it was (so no finalizer token is added) and no remote
  call goes to the Organization API or to the credential store.
\<close>

theorem Delete_empty_external_name:
  assumes "GetExternalName cr = ''''"
  shows "result (Delete c cr) = Returned \<and>
         err (Delete c cr) = None \<and> obj (Delete c cr) = cr \<and>
         Finalizers (obj (Delete c cr)) = Finalizers cr \<and> calls (Delete c cr) = []"
  using assms by (simp add: Delete_def)

theorem Delete_empty_external_name_witness:
  "GetExternalName acme = '''' \<and> result (Delete healthy acme) = Returned \<and>
   err (Delete healthy acme) = None \<and>
   obj (Delete healthy acme) = acme \<and> Finalizers (obj (Delete healthy acme)) = [] \<and>
   calls (Delete healthy acme) = []"
proof -
  have h: "GetExternalName acme = ''''"
    by (simp add: acme_def GetExternalName_def)
  have "Finalizers acme = []"
    by (simp add: acme_def)
  with h Delete_empty_external_name [OF h, of healthy] show ?thesis
    by simp
qed

section \<open>The finalizer checkpoint\<close>

text \<open>
  C4, as stated: whenever Delete is invoked with no finalizer token recorded, it records
  the token. The statement fails for an organization that was never created: \<open>acme\<close> has
  no external name and no finalizer, and Delete returns without recording the token.
\<close>

theorem Delete_checkpoint_counterexample:
  "\<not> FinalizerExists acme FinalizerOrganizationCleanup \<and>
   err (Delete healthy acme) = None \<and>
   \<not> FinalizerExists (obj (Delete healthy acme)) FinalizerOrganizationCleanup"
  by (simp add: Delete_def acme_def GetExternalName_def FinalizerExists_def)

text \<open>
  C4, amended. For every Organization on which Delete is invoked while no finalizer token
  is recorded, Delete issues no remote call to either backend and returns success; when
  the external identifier is not empty it records the token and changes nothing else, and
  when the external identifier is empty it leaves the object as it is.
\<close>

theorem Delete_checkpoint:
  assumes "\<not> FinalizerExists cr FinalizerOrganizationCleanup"
  shows "calls (Delete c cr) = [] \<and> err (Delete c cr) = None \<and>
         result (Delete c cr) = Returned \<and>
         (if GetExternalName cr = '''' then obj (Delete c cr) = cr
          else obj (Delete c cr) = AddFinalizer cr FinalizerOrganizationCleanup \<and>
               Finalizers (obj (Delete c cr)) = Finalizers cr @ [FinalizerOrganizationCleanup] \<and>
               FinalizerExists (obj (Delete c cr)) FinalizerOrganizationCleanup)"
  using assms by (simp add: Delete_def AddFinalizer_def FinalizerExists_def)

theorem Delete_checkpoint_witness:
  "\<not> FinalizerExists acme42 FinalizerOrganizationCleanup \<and>
   GetExternalName acme42 = ''org-42'' \<and>
   calls (Delete healthy acme42) = [] \<and> err (Delete healthy acme42) = None \<and>
   result (Delete healthy acme42) = Returned \<and>
   Finalizers (obj (Delete healthy acme42)) = [FinalizerOrganizationCleanup]"
proof -
  have h: "\<not> FinalizerExists acme42 FinalizerOrganizationCleanup"
    by (simp add: acme42_def acme_def SetExternalName_def FinalizerExists_def)
  have n: "GetExternalName acme42 = ''org-42''"
    by (simp add: acme42_def SetExternalName_def GetExternalName_def)
  have f: "Finalizers acme42 = []"
    by (simp add: acme42_def acme_def SetExternalName_def)
  from Delete_checkpoint [OF h, of healthy] h n f show ?thesis
    by (simp add: AddFinalizer_def)
qed

section \<open>Delete when the organization is already gone\<close>



section \<open>The finalizer around the remote deletes\<close>




section \<open>Create when the credential store refuses the secret\<close>

text \<open>
  C1, as stated: when the organization is created and the Put of its credentials fails,
  Create deletes the organization before it returns. The statement fails: with the store
  down, Create issues the create and the put and nothing else, no delete reaches the
  Organization API, and the error is the wrapped Put failure.
\<close>

theorem Create_compensation_counterexample:
  "CreateOrganization (client storeDown) (createOrganizationInput acme) =
     Inr (org42, keys42) \<and>
   err (Create storeDown acme) =
     Some (Wrap (New ''AccessDeniedException'') ''failed to put secret'') \<and>
   calls (Create storeDown acme) =
     [CallCreateOrganization (createOrganizationInput acme),
      CallPutSecret ''product/mongodb/acme''
        \<lparr>credsPublicKey = ''pub'', credsPrivateKey = ''priv''\<rparr> ''org-42'' None] \<and>
   CallDeleteOrganization ''org-42'' \<notin> set (calls (Create storeDown acme))"
  by (simp add: Create_def Let_def storeDown_def answering_def org42_def keys42_def
      acme_def SetExternalName_def finalSecretName_def secretPrefix_def
      createOrganizationInput_def)

text \<open>
  C1, amended. For every input where CreateOrganization against the Organization API
  succeeds but the subsequent credential-store Put fails, the error Create returns is the
  Put failure, wrapped with the text "failed to put secret". Create issues no
  compensating delete: its remote calls are the create and the put, in this order, and the
  object keeps the new organization's identifier as its external name.
\<close>

theorem Create_put_failure:
  assumes "CreateOrganization (client c) (createOrganizationInput cr) = Inr (org, apiKey)"
    and "PutSecret (awsClient c) (finalSecretName cr)
           \<lparr>credsPublicKey = PublicKey apiKey, credsPrivateKey = PrivateKey apiKey\<rparr>
           (svcID org) (KMSKeyID (AWSSecretsConfig (ForProvider cr))) = Inl e"
  shows "err (Create c cr) = Some (Wrap e ''failed to put secret'') \<and>
         calls (Create c cr) =
           [CallCreateOrganization (createOrganizationInput cr),
            CallPutSecret (finalSecretName cr)
              \<lparr>credsPublicKey = PublicKey apiKey, credsPrivateKey = PrivateKey apiKey\<rparr>
              (svcID org) (KMSKeyID (AWSSecretsConfig (ForProvider cr)))] \<and>
         (\<forall>i. CallDeleteOrganization i \<notin> set (calls (Create c cr))) \<and>
         GetExternalName (obj (Create c cr)) = svcID org"
proof -
  let ?cr2 = "(SetExternalName cr (svcID org))\<lparr>AtProvider :=
                (AtProvider (SetExternalName cr (svcID org)))\<lparr>OrgID := svcID org,
                   OrgName := svcName org\<rparr>\<rparr>"
  have s: "finalSecretName ?cr2 = finalSecretName cr"
    by (rule finalSecretName_cong) (simp_all add: SetExternalName_def)
  have k: "KMSKeyID (AWSSecretsConfig (ForProvider ?cr2)) =
           KMSKeyID (AWSSecretsConfig (ForProvider cr))"
    by (simp add: SetExternalName_def)
  have x: "GetExternalName ?cr2 = svcID org"
    by (simp add: SetExternalName_def GetExternalName_def)
  from assms s k x show ?thesis
    by (simp add: Create_def Let_def)
qed

theorem Create_put_failure_witness:
  "CreateOrganization (client storeDown) (createOrganizationInput acme) =
     Inr (org42, keys42) \<and>
   PutSecret (awsClient storeDown) (finalSecretName acme)
     \<lparr>credsPublicKey = PublicKey keys42, credsPrivateKey = PrivateKey keys42\<rparr>
     (svcID org42) (KMSKeyID (AWSSecretsConfig (ForProvider acme))) =
     Inl (New ''AccessDeniedException'') \<and>
   err (Create storeDown acme) =
     Some (Wrap (New ''AccessDeniedException'') ''failed to put secret'') \<and>
   length (calls (Create storeDown acme)) = 2 \<and>
   GetExternalName (obj (Create storeDown acme)) = ''org-42''"
proof -
  have a: "CreateOrganization (client storeDown) (createOrganizationInput acme) =
           Inr (org42, keys42)"
    by (simp add: storeDown_def answering_def)
  have b: "PutSecret (awsClient storeDown) (finalSecretName acme)
             \<lparr>credsPublicKey = PublicKey keys42, credsPrivateKey = PrivateKey keys42\<rparr>
             (svcID org42) (KMSKeyID (AWSSecretsConfig (ForProvider acme))) =
           Inl (New ''AccessDeniedException'')"
    by (simp add: storeDown_def answering_def)
  have i: "svcID org42 = ''org-42''"
    by (simp add: org42_def)
  from Create_put_failure [OF a b] a b i show ?thesis
    by simp
qed

section \<open>Observe\<close>

text \<open>
  C2, as stated: with a non-empty external identifier Observe issues a Get against the
  Organization API, and a NotFound answer makes it report that the resource does not
  exist and clean up the credential record. The statement fails: with the organization
  gone remotely, Observe asks the credential store alone, reports that the resource
  exists, and deletes nothing.
\<close>

theorem Observe_get_counterexample:
  "GetExternalName acme42 = ''org-42'' \<and>
   GetOrganization (client orgGone) ''org-42'' = Inl (NotFoundError notFoundBody) \<and>
   calls (Observe orgGone acme42) = [CallDescribeSecret ''product/mongodb/acme''] \<and>
   ResourceExists (result (Observe orgGone acme42)) \<and>
   err (Observe orgGone acme42) = None"
  by (simp add: Observe_def Let_def orgGone_def answering_def acme42_def acme_def
      SetExternalName_def GetExternalName_def finalSecretName_def secretPrefix_def)

text \<open>
  C2, amended. For every Organization whose observed external identifier is non-empty,
  Observe issues no Get against the Organization API client: whatever that client would
  answer, Observe reports exists=true with no error. Its only remote call is one Describe
  of the resolved secret against the credential store, and none at all when the resource
  is marked for deletion; it deletes no credential record.
\<close>

theorem Observe_never_asks_the_organization_api:
  assumes "GetExternalName cr \<noteq> ''''"
  shows "ResourceExists (result (Observe c cr)) \<and> err (Observe c cr) = None \<and>
         (DeletionTimestamp cr \<noteq> None \<longrightarrow> calls (Observe c cr) = []) \<and>
         (DeletionTimestamp cr = None \<longrightarrow>
            calls (Observe c cr) = [CallDescribeSecret (finalSecretName cr)]) \<and>
         (\<forall>i. CallGetOrganization i \<notin> set (calls (Observe c cr))) \<and>
         (\<forall>n b. CallDeleteSecret n b \<notin> set (calls (Observe c cr))) \<and>
         Observe (c\<lparr>client := s\<rparr>) cr = Observe c cr"
proof -
  have n: "finalSecretName (cr\<lparr>AtProvider := (AtProvider cr)\<lparr>OrgID := GetExternalName cr\<rparr>\<rparr>) =
           finalSecretName cr"
    by (rule finalSecretName_cong) simp_all
  from assms n show ?thesis
    by (simp add: Observe_def Let_def split: sum.splits option.splits)
qed

theorem Observe_never_asks_the_organization_api_witness:
  "GetExternalName acme42 \<noteq> '''' \<and>
   ResourceExists (result (Observe healthy acme42)) \<and>
   err (Observe healthy acme42) = None \<and>
   DeletionTimestamp acme42 = None \<and>
   calls (Observe healthy acme42) = [CallDescribeSecret ''product/mongodb/acme''] \<and>
   GetExternalName acme42Deleting \<noteq> '''' \<and>
   DeletionTimestamp acme42Deleting \<noteq> None \<and>
   ResourceExists (result (Observe healthy acme42Deleting)) \<and>
   calls (Observe healthy acme42Deleting) = [] \<and>
   Observe (orgGone\<lparr>client := client storeDown\<rparr>) acme42 = Observe orgGone acme42"
proof -
  have n: "GetExternalName acme42 \<noteq> ''''"
    by (simp add: acme42_def SetExternalName_def GetExternalName_def)
  have m: "GetExternalName acme42Deleting \<noteq> ''''"
    by (simp add: acme42Deleting_def acme42_def SetExternalName_def GetExternalName_def)
  have t: "DeletionTimestamp acme42 = None"
    by (simp add: acme42_def acme_def SetExternalName_def)
  have u: "DeletionTimestamp acme42Deleting \<noteq> None"
    by (simp add: acme42Deleting_def)
  have s: "finalSecretName acme42 = ''product/mongodb/acme''"
    by (simp add: acme42_def acme_def SetExternalName_def finalSecretName_def
        secretPrefix_def)
  from Observe_never_asks_the_organization_api [OF n, of healthy]
    Observe_never_asks_the_organization_api [OF m, of healthy]
    Observe_never_asks_the_organization_api [OF n, of orgGone "client storeDown"]
    n m t u s
  show ?thesis
    by simp
qed

text \<open>
  C7, as stated: when the organization exists and the Describe of its secret fails,
  Observe reports exists=true with upToDate=false. The statement fails: with the
  organization present remotely and its secret missing from the store, Observe reports
  upToDate=true.
\<close>

theorem Observe_missing_secret_counterexample:
  "GetExternalName acme42 = ''org-42'' \<and> DeletionTimestamp acme42 = None \<and>
   GetOrganization (client secretMissing) ''org-42'' = Inr org42 \<and>
   DescribeSecret (awsClient secretMissing) (finalSecretName acme42) =
     Inl (New ''ResourceNotFoundException'') \<and>
   ResourceExists (result (Observe secretMissing acme42)) \<and>
   ResourceUpToDate (result (Observe secretMissing acme42)) \<and>
   err (Observe secretMissing acme42) = None"
  by (simp add: Observe_def Let_def secretMissing_def answering_def acme42_def acme_def
      SetExternalName_def GetExternalName_def finalSecretName_def secretPrefix_def)

text \<open>
  C7, amended. For every Observe invocation on an organization with a non-empty external
  identifier that is not marked for deletion, where the Describe of the expected
  credential record fails, Observe returns exists=true with upToDate=true rather than an
  error; it logs the failure, sets the condition Available and leaves the secret fields
  of the status as they were.
\<close>

theorem Observe_missing_secret:
  assumes "GetExternalName cr \<noteq> ''''"
    and "DeletionTimestamp cr = None"
    and "DescribeSecret (awsClient c) (finalSecretName cr) = Inl e"
  shows "result (Observe c cr) = \<lparr>ResourceExists = True, ResourceUpToDate = True\<rparr> \<and>
         err (Observe c cr) = None \<and>
         logs (Observe c cr) = [LogDescribeFailed] \<and>
         obj (Observe c cr) =
           SetConditions (cr\<lparr>AtProvider := (AtProvider cr)\<lparr>OrgID := GetExternalName cr\<rparr>\<rparr>)
             Available"
proof -
  have n: "finalSecretName (cr\<lparr>AtProvider := (AtProvider cr)\<lparr>OrgID := GetExternalName cr\<rparr>\<rparr>) =
           finalSecretName cr"
    by (rule finalSecretName_cong) simp_all
  from assms n show ?thesis
    by (simp add: Observe_def Let_def)
qed

theorem Observe_missing_secret_witness:
  "GetExternalName acme42 \<noteq> '''' \<and> DeletionTimestamp acme42 = None \<and>
   DescribeSecret (awsClient storeDown) (finalSecretName acme42) =
     Inl (New ''AccessDeniedException'') \<and>
   result (Observe storeDown acme42) = \<lparr>ResourceExists = True, ResourceUpToDate = True\<rparr> \<and>
   err (Observe storeDown acme42) = None"
proof -
  have n: "GetExternalName acme42 \<noteq> ''''"
    by (simp add: acme42_def SetExternalName_def GetExternalName_def)
  have t: "DeletionTimestamp acme42 = None"
    by (simp add: acme42_def acme_def SetExternalName_def)
  have d: "DescribeSecret (awsClient storeDown) (finalSecretName acme42) =
           Inl (New ''AccessDeniedException'')"
    by (simp add: storeDown_def answering_def)
  from Observe_missing_secret [OF n t d] n t d show ?thesis
    by simp
qed

section \<open>Update\<close>

text \<open>
  C8, as stated: when the description or the roles of the desired spec differ from what
  is stored, Update fetches the stored record, merges and puts it. The statement fails:
  the spec of \<open>acme42\<close> asks for the description "x", the stored secret carries another
  one, and Update issues no call at all.
\<close>

theorem Update_counterexample:
  "Description (APIKey (ForProvider acme42)) = ''x'' \<and>
   DescribeSecret (awsClient healthy) (finalSecretName acme42) = Inr storedSecret \<and>
   descDescription storedSecret = Some ''MongoDB API credentials for organization org-42'' \<and>
   calls (Update healthy acme42) = [] \<and>
   err (Update healthy acme42) = None"
  by (simp add: Update_def healthy_def answering_def storedSecret_def acme42_def acme_def
      SetExternalName_def)

text \<open>
  C8, amended. For every Update invocation, whatever the desired spec holds and whatever
  is stored, Update issues no remote call (no fetch and no Put against the credential
  store, nothing against the Organization API), leaves the object as it is and returns an
  empty result with no error.
\<close>

theorem Update_is_a_no_op:
  "calls (Update c cr) = [] \<and> err (Update c cr) = None \<and> obj (Update c cr) = cr \<and>
   UpdateConnectionDetails (result (Update c cr)) = Map.empty"
  by (simp add: Update_def)

section \<open>The secret name\<close>

text \<open>
  C9, as stated: without an explicit key name, after creation the name is derived from
  the assigned identifier. The statement fails: two created organizations with the same
  identifier and different declared names get different secret names, and two with the
  same declared name and different identifiers get the same one. The name of a created
  organization is derived from its declared name.
\<close>

theorem finalSecretName_counterexample:
  "GetExternalName acme42 = ''org-42'' \<and> GetExternalName globex42 = ''org-42'' \<and>
   finalSecretName acme42 \<noteq> finalSecretName globex42 \<and>
   GetExternalName acme43 = ''org-43'' \<and>
   finalSecretName acme43 = finalSecretName acme42 \<and>
   finalSecretName acme42 = ''product/mongodb/acme''"
  by (simp add: acme42_def acme43_def globex42_def acme_def SetExternalName_def
      GetExternalName_def finalSecretName_def secretPrefix_def)

text \<open>
  C9, amended. The secret-name resolver is a function of the declared name and of the
  explicit key name of the spec alone, so repeated calls on the same resource, before or
  after creation, yield the same name: when the spec supplies an explicit non-empty key
  name the result is that name verbatim, prefixed with the fixed namespace segment;
  otherwise it is the namespace segment followed by the organization's declared logical
  name, before and after creation. The assigned identifier is not used.
\<close>

theorem finalSecretName_resolves:
  "(\<forall>n. SecretName (AWSSecretsConfig (ForProvider cr)) = Some n \<and> n \<noteq> '''' \<longrightarrow>
        finalSecretName cr = secretPrefix @ n) \<and>
   (SecretName (AWSSecretsConfig (ForProvider cr)) = None \<or>
    SecretName (AWSSecretsConfig (ForProvider cr)) = Some '''' \<longrightarrow>
        finalSecretName cr = secretPrefix @ Name cr) \<and>
   (Name cr' = Name cr \<and>
    SecretName (AWSSecretsConfig (ForProvider cr')) =
    SecretName (AWSSecretsConfig (ForProvider cr)) \<longrightarrow>
        finalSecretName cr' = finalSecretName cr) \<and>
   finalSecretName (SetExternalName cr i) = finalSecretName cr"
proof (intro conjI allI impI)
  fix n
  assume "SecretName (AWSSecretsConfig (ForProvider cr)) = Some n \<and> n \<noteq> ''''"
  then show "finalSecretName cr = secretPrefix @ n"
    by (simp add: finalSecretName_def)
next
  assume "SecretName (AWSSecretsConfig (ForProvider cr)) = None \<or>
          SecretName (AWSSecretsConfig (ForProvider cr)) = Some ''''"
  then show "finalSecretName cr = secretPrefix @ Name cr"
    by (auto simp add: finalSecretName_def)
next
  assume "Name cr' = Name cr \<and>
          SecretName (AWSSecretsConfig (ForProvider cr')) =
          SecretName (AWSSecretsConfig (ForProvider cr))"
  then show "finalSecretName cr' = finalSecretName cr"
    by (intro finalSecretName_cong) simp_all
next
  show "finalSecretName (SetExternalName cr i) = finalSecretName cr"
    by (rule finalSecretName_cong) (simp_all add: SetExternalName_def)
qed

theorem finalSecretName_resolves_witness:
  "SecretName (AWSSecretsConfig (ForProvider acmeKeyed)) = Some ''team-a'' \<and>
   finalSecretName acmeKeyed = ''product/mongodb/team-a'' \<and>
   SecretName (AWSSecretsConfig (ForProvider acme)) = None \<and>
   finalSecretName acme = ''product/mongodb/acme'' \<and>
   Name acme43 = Name acme \<and>
   finalSecretName acme43 = finalSecretName acme \<and>
   finalSecretName (SetExternalName acme ''org-42'') = finalSecretName acme"
proof -
  have k: "SecretName (AWSSecretsConfig (ForProvider acmeKeyed)) = Some ''team-a''"
    by (simp add: acmeKeyed_def)
  have a: "SecretName (AWSSecretsConfig (ForProvider acme)) = None"
    by (simp add: acme_def)
  have m: "Name acme = ''acme''"
    by (simp add: acme_def)
  have n: "Name acme43 = Name acme"
    by (simp add: acme43_def SetExternalName_def)
  have s: "SecretName (AWSSecretsConfig (ForProvider acme43)) =
           SecretName (AWSSecretsConfig (ForProvider acme))"
    by (simp add: acme43_def SetExternalName_def)
  from finalSecretName_resolves [of acmeKeyed acmeKeyed "''org-42''"]
    finalSecretName_resolves [of acme acme43 "''org-42''"] k a m n s
  show ?thesis
    by (simp add: secretPrefix_def)
qed

section \<open>The error classifier\<close>

text \<open>
  C6, as stated: for every HTTP outcome, status 404 is mapped to NotFound. The statement
  fails for a 404 whose body does not parse as an API error: the request helper returns
  a plain error, which is not a NotFound error (nor a retryable one).
\<close>

theorem makeRequest_counterexample:
  "makeRequest (Responded 404 ''404 Not Found'' None None) False =
     Some (Errorf ''HTTP %d: %s'' [ArgInt 404, ArgStr ''404 Not Found'']) \<and>
   \<not> IsNotFoundError (makeRequest (Responded 404 ''404 Not Found'' None None) False) \<and>
   \<not> IsRetryableError (makeRequest (Responded 404 ''404 Not Found'' None None) False)"
  by simp

text \<open>
  C6, amended. For every HTTP outcome of a remote call whose error body parses as an API
  error, the classifier maps status 404 to NotFound, 409 to Conflict, 429 to a retryable
  error "rate limited", every status in 500..599 to a retryable error "server error", and
  any other 4xx to the API error itself, which is not retryable; a transport failure
  before any response is mapped to a retryable network error. When the body of an error
  response does not parse, a status from 500 up is mapped to a retryable error "server
  error", and any 4xx (404, 409 and 429 too) to a plain error that is neither NotFound nor
  Conflict nor retryable.
\<close>

theorem makeRequest_classifies:
  "makeRequest (Responded 404 st (Some b) d) w = Some (NotFoundError b) \<and>
   makeRequest (Responded 409 st (Some b) d) w =
     Some (ConflictError (APIError b) ''resource in conflict state'') \<and>
   makeRequest (Responded 429 st (Some b) d) w =
     Some (RetryableError (APIError b) ''rate limited'') \<and>
   (500 \<le> code \<and> code \<le> 599 \<longrightarrow>
      makeRequest (Responded code st (Some b) d) w =
        Some (RetryableError (APIError b) ''server error'') \<and>
      IsRetryableError (makeRequest (Responded code st (Some b) d) w)) \<and>
   (400 \<le> code \<and> code \<le> 499 \<and> code \<noteq> 404 \<and> code \<noteq> 409 \<and> code \<noteq> 429 \<longrightarrow>
      makeRequest (Responded code st (Some b) d) w = Some (APIError b) \<and>
      \<not> IsRetryableError (makeRequest (Responded code st (Some b) d) w)) \<and>
   makeRequest (DoFailed e) w =
     Some (RetryableError e ''HTTP request failed (network error)'') \<and>
   IsRetryableError (makeRequest (DoFailed e) w) \<and>
   (500 \<le> code \<longrightarrow>
      makeRequest (Responded code st None d) w =
        Some (RetryableError (Errorf ''HTTP %d: %s'' [ArgInt code, ArgStr st])
                ''server error'')) \<and>
   (400 \<le> code \<and> code \<le> 499 \<longrightarrow>
      makeRequest (Responded code st None d) w =
        Some (Errorf ''HTTP %d: %s'' [ArgInt code, ArgStr st]) \<and>
      \<not> IsNotFoundError (makeRequest (Responded code st None d) w) \<and>
      \<not> IsConflictError (makeRequest (Responded code st None d) w) \<and>
      \<not> IsRetryableError (makeRequest (Responded code st None d) w))"
  by simp

theorem makeRequest_classifies_witness:
  "makeRequest (Responded 503 ''503 Service Unavailable'' (Some notFoundBody) None) True =
     Some (RetryableError (APIError notFoundBody) ''server error'') \<and>
   makeRequest (Responded 400 ''400 Bad Request'' (Some notFoundBody) None) True =
     Some (APIError notFoundBody) \<and>
   makeRequest (Responded 404 ''404 Not Found'' (Some notFoundBody) None) True =
     Some (NotFoundError notFoundBody) \<and>
   makeRequest (Responded 503 ''503 Service Unavailable'' None None) True =
     Some (RetryableError
             (Errorf ''HTTP %d: %s'' [ArgInt 503, ArgStr ''503 Service Unavailable''])
             ''server error'') \<and>
   makeRequest (Responded 400 ''400 Bad Request'' None None) True =
     Some (Errorf ''HTTP %d: %s'' [ArgInt 400, ArgStr ''400 Bad Request'']) \<and>
   makeRequest (DoFailed (New ''connection refused'')) True =
     Some (RetryableError (New ''connection refused'')
             ''HTTP request failed (network error)'')"
proof -
  have a: "(500::int) \<le> 503 \<and> (503::int) \<le> 599"
    by simp
  have b: "(400::int) \<le> 400 \<and> (400::int) \<le> 499 \<and> (400::int) \<noteq> 404 \<and>
           (400::int) \<noteq> 409 \<and> (400::int) \<noteq> 429"
    by simp
  from a b
    makeRequest_classifies [of "''503 Service Unavailable''" notFoundBody None True 503
      "New ''connection refused''"]
    makeRequest_classifies [of "''400 Bad Request''" notFoundBody None True 400
      "New ''connection refused''"]
    makeRequest_classifies [of "''404 Not Found''" notFoundBody None True 404
      "New ''connection refused''"]
  show ?thesis
    by simp
qed

end
